theory Spec2Isabelle
  imports Main
begin

section \<open>The engine client\<close>

text \<open>
  Modelled from the spec: the generated engine client (the types \<open>Container\<close>,
  \<open>Directory\<close>, \<open>File\<close>, \<open>Service\<close>, \<open>CacheVolume\<close> and the entry point \<open>dag\<close>)
  is not among the sources. The spec treats the engine as an external collaborator whose
  handles are lazy references: a method call only extends the description of the object
  and returns a new handle, nothing runs until a blocking call (\<open>Endpoint\<close>, \<open>Stdout\<close>,
  \<open>Entries\<close>) asks the engine for a value. A handle is therefore modelled as the chain of
  calls that built it, one constructor per client method, with the receiver as the first
  argument and the method's arguments after it. Values of these types are immutable, as
  the client's handles are: every \<open>With...\<close> call yields a new value.
\<close>

datatype cache_volume = CacheVolume string

datatype cache_sharing = Shared | Private | Locked

datatype container =
    DagContainer
  | From container string
  | WithMountedCache container string cache_volume "cache_sharing option"
  | WithMountedDirectory container string directory
  | WithDirectory container string directory
  | WithWorkdir container string
  | WithEnvVariable container string string
  | WithExec container "string list" bool
  | WithExposedPort container int
  | WithServiceBinding container string service
  | WithNewFile container string
and directory =
    DagDirectory
  | HostDirectory string
  | CtrDirectory container string
  | SubDirectory directory string
  | GitTree string string
  | DirWithFile directory string file_handle
and file_handle =
    CtrFile container string
and service =
    AsService container

text \<open>
  \<open>WithMountedCache\<close> carries the sharing mode of \<open>ContainerWithMountedCacheOpts\<close> when
  the call passes one (\<open>None\<close>: no option given). The flag of \<open>WithExec\<close> is
  \<open>ContainerWithExecOpts.InsecureRootCapabilities\<close>, false when the call passes no
  option. \<open>HostDirectory\<close> stands for a directory handle supplied by the caller,
  \<open>GitTree remote branch\<close> for \<open>dag.Git(remote).Branch(branch).Tree()\<close>,
  \<open>CtrDirectory\<close> and \<open>SubDirectory\<close> for the \<open>Directory\<close> method of a container and
  of a directory, \<open>DirWithFile\<close> for the \<open>WithFile\<close> method of a directory and \<open>CtrFile\<close>
  for the \<open>File\<close> method of a container.
\<close>

text \<open>
  Modelled from the spec: a Go handle is a pointer and may be \<open>nil\<close>, modelled as \<open>None\<close>.
  Every client method reads its receiver, so a call on a \<open>nil\<close> receiver panics (the
  source marks one such call with the comment "Hier was de crash"), and the client
  refuses a \<open>nil\<close> handle passed as an argument of a mount, which the spec describes as
  an error surfacing at mount time. The program never recovers from a panic.
\<close>

datatype panic = Panic

definition deref :: "'a option \<Rightarrow> panic + 'a" where
  "deref p = (case p of None \<Rightarrow> Inl Panic | Some x \<Rightarrow> Inr x)"

subsection \<open>What a chain of calls sets\<close>

text \<open>The environment variables a chain of calls sets; a later call overrides an earlier one.\<close>

fun env_of :: "container \<Rightarrow> string \<Rightarrow> string option" where
  "env_of DagContainer = Map.empty"
| "env_of (From c img) = env_of c"
| "env_of (WithMountedCache c path v s) = env_of c"
| "env_of (WithMountedDirectory c path d) = env_of c"
| "env_of (WithDirectory c path d) = env_of c"
| "env_of (WithWorkdir c path) = env_of c"
| "env_of (WithEnvVariable c k v) = (env_of c)(k \<mapsto> v)"
| "env_of (WithExec c args insecure) = env_of c"
| "env_of (WithExposedPort c port) = env_of c"
| "env_of (WithServiceBinding c alias s) = env_of c"
| "env_of (WithNewFile c path) = env_of c"

text \<open>The working directory a chain of calls sets.\<close>

fun workdir_of :: "container \<Rightarrow> string option" where
  "workdir_of DagContainer = None"
| "workdir_of (From c img) = workdir_of c"
| "workdir_of (WithMountedCache c path v s) = workdir_of c"
| "workdir_of (WithMountedDirectory c path d) = workdir_of c"
| "workdir_of (WithDirectory c path d) = workdir_of c"
| "workdir_of (WithWorkdir c path) = Some path"
| "workdir_of (WithEnvVariable c k v) = workdir_of c"
| "workdir_of (WithExec c args insecure) = workdir_of c"
| "workdir_of (WithExposedPort c port) = workdir_of c"
| "workdir_of (WithServiceBinding c alias s) = workdir_of c"
| "workdir_of (WithNewFile c path) = workdir_of c"

text \<open>
  The directories a chain of calls places at a path, by \<open>WithDirectory\<close> or by
  \<open>WithMountedDirectory\<close>; a later call at the same path overrides an earlier one.
\<close>

fun dir_at :: "container \<Rightarrow> string \<Rightarrow> directory option" where
  "dir_at DagContainer = Map.empty"
| "dir_at (From c img) = dir_at c"
| "dir_at (WithMountedCache c path v s) = dir_at c"
| "dir_at (WithMountedDirectory c path d) = (dir_at c)(path \<mapsto> d)"
| "dir_at (WithDirectory c path d) = (dir_at c)(path \<mapsto> d)"
| "dir_at (WithWorkdir c path) = dir_at c"
| "dir_at (WithEnvVariable c k v) = dir_at c"
| "dir_at (WithExec c args insecure) = dir_at c"
| "dir_at (WithExposedPort c port) = dir_at c"
| "dir_at (WithServiceBinding c alias s) = dir_at c"
| "dir_at (WithNewFile c path) = dir_at c"

text \<open>The cache mounts of a chain, in call order: path, volume and sharing mode.\<close>

fun cache_mounts :: "container \<Rightarrow> (string \<times> cache_volume \<times> cache_sharing option) list" where
  "cache_mounts DagContainer = []"
| "cache_mounts (From c img) = cache_mounts c"
| "cache_mounts (WithMountedCache c path v s) = cache_mounts c @ [(path, v, s)]"
| "cache_mounts (WithMountedDirectory c path d) = cache_mounts c"
| "cache_mounts (WithDirectory c path d) = cache_mounts c"
| "cache_mounts (WithWorkdir c path) = cache_mounts c"
| "cache_mounts (WithEnvVariable c k v) = cache_mounts c"
| "cache_mounts (WithExec c args insecure) = cache_mounts c"
| "cache_mounts (WithExposedPort c port) = cache_mounts c"
| "cache_mounts (WithServiceBinding c alias s) = cache_mounts c"
| "cache_mounts (WithNewFile c path) = cache_mounts c"

text \<open>The base image of a chain: the argument of its last \<open>From\<close>.\<close>

fun image_of :: "container \<Rightarrow> string option" where
  "image_of DagContainer = None"
| "image_of (From c img) = Some img"
| "image_of (WithMountedCache c path v s) = image_of c"
| "image_of (WithMountedDirectory c path d) = image_of c"
| "image_of (WithDirectory c path d) = image_of c"
| "image_of (WithWorkdir c path) = image_of c"
| "image_of (WithEnvVariable c k v) = image_of c"
| "image_of (WithExec c args insecure) = image_of c"
| "image_of (WithExposedPort c port) = image_of c"
| "image_of (WithServiceBinding c alias s) = image_of c"
| "image_of (WithNewFile c path) = image_of c"

text \<open>The exposed ports of a chain, in call order.\<close>

fun ports_of :: "container \<Rightarrow> int list" where
  "ports_of DagContainer = []"
| "ports_of (From c img) = ports_of c"
| "ports_of (WithMountedCache c path v s) = ports_of c"
| "ports_of (WithMountedDirectory c path d) = ports_of c"
| "ports_of (WithDirectory c path d) = ports_of c"
| "ports_of (WithWorkdir c path) = ports_of c"
| "ports_of (WithEnvVariable c k v) = ports_of c"
| "ports_of (WithExec c args insecure) = ports_of c"
| "ports_of (WithExposedPort c port) = ports_of c @ [port]"
| "ports_of (WithServiceBinding c alias s) = ports_of c"
| "ports_of (WithNewFile c path) = ports_of c"

text \<open>The commands of a chain, in call order, each with its insecure-root flag.\<close>

fun execs_of :: "container \<Rightarrow> (string list \<times> bool) list" where
  "execs_of DagContainer = []"
| "execs_of (From c img) = execs_of c"
| "execs_of (WithMountedCache c path v s) = execs_of c"
| "execs_of (WithMountedDirectory c path d) = execs_of c"
| "execs_of (WithDirectory c path d) = execs_of c"
| "execs_of (WithWorkdir c path) = execs_of c"
| "execs_of (WithEnvVariable c k v) = execs_of c"
| "execs_of (WithExec c args insecure) = execs_of c @ [(args, insecure)]"
| "execs_of (WithExposedPort c port) = execs_of c"
| "execs_of (WithServiceBinding c alias s) = execs_of c"
| "execs_of (WithNewFile c path) = execs_of c"

text \<open>The service bindings of a chain, by alias; a later binding overrides an earlier one.\<close>

fun bindings_of :: "container \<Rightarrow> string \<Rightarrow> service option" where
  "bindings_of DagContainer = Map.empty"
| "bindings_of (From c img) = bindings_of c"
| "bindings_of (WithMountedCache c path v s) = bindings_of c"
| "bindings_of (WithMountedDirectory c path d) = bindings_of c"
| "bindings_of (WithDirectory c path d) = bindings_of c"
| "bindings_of (WithWorkdir c path) = bindings_of c"
| "bindings_of (WithEnvVariable c k v) = bindings_of c"
| "bindings_of (WithExec c args insecure) = bindings_of c"
| "bindings_of (WithExposedPort c port) = bindings_of c"
| "bindings_of (WithServiceBinding c alias s) = (bindings_of c)(alias \<mapsto> s)"
| "bindings_of (WithNewFile c path) = bindings_of c"

section \<open>The module\<close>

subsection \<open>Constants and Build State\<close>

definition DEFAULT_GO :: string where
  "DEFAULT_GO = ''1.23.4''"

definition PROJ_MOUNT :: string where
  "PROJ_MOUNT = ''/src''"


record golang =
  Ctr :: "container option"
  Proj :: "directory option"

subsection \<open>Service\<close>

text \<open>
  \<open>Service\<close> is a method of the module's object; it never reads its receiver, which is
  kept as an argument so that this can be stated. \<open>fmt.Sprintf("docker:%s-dind", v)\<close>
  is the concatenation of the three strings.
\<close>

definition Service :: "golang \<Rightarrow> string \<Rightarrow> service" where
  "Service g dockerVersion =
     (let port = 2375 in
      AsService
        (WithExec
          (WithExposedPort
            (WithMountedCache
              (From DagContainer (''docker:'' @ dockerVersion @ ''-dind''))
              ''/var/lib/docker''
              (CacheVolume (dockerVersion @ ''-docker-lib''))
              (Some Private))
            port)
          [''dockerd'', ''--host=tcp://0.0.0.0:2375'',
           ''--host=unix:///var/run/docker.sock'', ''--tls=false'']
          True))"

text \<open>The container a service handle was made from.\<close>

fun service_container :: "service \<Rightarrow> container" where
  "service_container (AsService c) = c"

subsection \<open>Accessors and setters\<close>

definition Container :: "golang \<Rightarrow> container option" where
  "Container g = Ctr g"

definition Project :: "golang \<Rightarrow> panic + directory" where
  "Project g = (case Ctr g of None \<Rightarrow> Inl Panic | Some c \<Rightarrow> Inr (CtrDirectory c PROJ_MOUNT))"

definition WithProject :: "golang \<Rightarrow> directory option \<Rightarrow> golang" where
  "WithProject g dir = g\<lparr>Proj := dir\<rparr>"

definition WithContainer :: "golang \<Rightarrow> container option \<Rightarrow> golang" where
  "WithContainer g ctr = g\<lparr>Ctr := ctr\<rparr>"

subsection \<open>The world outside the module\<close>

text \<open>
  Modelled from the spec: the blocking calls are answered by the engine, an external
  collaborator. Its answers are parameters of the model: \<open>endpoint n s scheme\<close> is the
  answer to the \<open>n\<close>-th \<open>Endpoint\<close> call of the session, made on service \<open>s\<close> (\<open>Inl\<close> the
  error's message, \<open>Inr\<close> the address), \<open>stdout c\<close> the output and the error of running
  container \<open>c\<close>, \<open>entries d\<close> the listing of directory \<open>d\<close> or the error's message.
  The host's \<open>runtime.GOARCH\<close> and \<open>runtime.GOOS\<close> are parameters as well.
\<close>

record engine =
  endpoint :: "nat \<Rightarrow> service \<Rightarrow> string \<Rightarrow> string + string"
  stdout :: "container \<Rightarrow> string \<times> string option"
  entries :: "directory \<Rightarrow> string + string list"

record host =
  GOARCH :: string
  GOOS :: string

text \<open>
  The effects of the module on the world: the calls it makes to the standard logger, in
  order, and the number of \<open>Endpoint\<close> calls made so far. \<open>Printf\<close> keeps its format
  string, the only argument the module passes.
\<close>

datatype log_call = Println string | Printf string

record world =
  logged :: "log_call list"
  resolved :: nat

definition log :: "log_call \<Rightarrow> world \<Rightarrow> world" where
  "log l w = w\<lparr>logged := logged w @ [l]\<rparr>"

text \<open>The warning sign the messages start with: U+26A0 U+FE0F, six bytes of UTF-8.\<close>

definition warning_sign :: string where
  "warning_sign = [CHR 0xE2, CHR 0x9A, CHR 0xA0, CHR 0xEF, CHR 0xB8, CHR 0x8F]"

subsection \<open>Attach and prepare\<close>

text \<open>
  \<open>Attach\<close> returns a Go pair \<open>(*Container, error)\<close>: a handle that may be \<open>nil\<close> and an
  error that may be \<open>nil\<close>.
\<close>

definition Attach ::
  "engine \<Rightarrow> golang \<Rightarrow> container option \<Rightarrow> world \<Rightarrow>
     panic + ((container option \<times> string option) \<times> world)" where
  "Attach eng g container w =
     (let dockerd = Service g ''24.0'';
          w1 = w\<lparr>resolved := Suc (resolved w)\<rparr>
      in case endpoint eng (resolved w) dockerd ''tcp'' of
           Inl err \<Rightarrow> Inr ((None, Some err), w1)
         | Inr dockerHost \<Rightarrow>
             (case container of
                None \<Rightarrow> Inl Panic
              | Some c \<Rightarrow>
                  Inr ((Some (WithEnvVariable (WithServiceBinding c ''docker'' dockerd)
                               ''DOCKER_HOST'' dockerHost), None), w1)))"

text \<open>
  In \<open>prepare\<close> the statement \<open>c, err := g.Attach(ctx, c)\<close> assigns to the \<open>c\<close> declared
  just before it (only \<open>err\<close> is new), so the handle returned is the one \<open>Attach\<close>
  returned.
\<close>

definition prepare :: "engine \<Rightarrow> golang \<Rightarrow> world \<Rightarrow> panic + (container option \<times> world)" where
  "prepare eng g w =
     (case Ctr g of
        None \<Rightarrow> Inl Panic
      | Some ctr \<Rightarrow>
          (case Proj g of
             None \<Rightarrow> Inl Panic
           | Some proj \<Rightarrow>
               (let c = WithWorkdir (WithDirectory ctr PROJ_MOUNT proj) PROJ_MOUNT
                in case Attach eng g (Some c) w of
                     Inl p \<Rightarrow> Inl p
                   | Inr ((c', err), w1) \<Rightarrow>
                       (case err of
                          None \<Rightarrow> Inr (c', w1)
                        | Some e \<Rightarrow> Inr (c', log (Printf e) w1)))))"

subsection \<open>Base and New\<close>

text \<open>
  \<open>Base\<close> of \<open>golang/main.go\<close>. The first chain already calls
  \<open>g.Proj.Directory("vendor")\<close>, before the test \<open>g.Proj == nil\<close>. The source's
  variables \<open>mod\<close> and \<open>image\<close> are \<open>modv\<close> and \<open>img\<close> here.
\<close>

definition Base :: "golang \<Rightarrow> string \<Rightarrow> world \<Rightarrow> panic + (golang \<times> world)" where
  "Base g version w =
     (let modv = CacheVolume ''gomodcache'';
          build = CacheVolume ''gobuildcache'';
          img = ''golang:'' @ version
      in case deref (Proj g) of
           Inl p \<Rightarrow> Inl p
         | Inr proj0 \<Rightarrow>
             (let c = WithEnvVariable
                        (WithMountedDirectory
                          (WithMountedCache
                            (WithMountedCache (From DagContainer img) ''/go/pkg/mod'' modv None)
                            ''/root/.cache/go-build'' build None)
                          ''/src/vendor'' (SubDirectory proj0 ''vendor''))
                        ''GOFLAGS'' ''-mod=vendor'';
                  (g1, w1) =
                    (if Proj g = None
                     then (g\<lparr>Proj := Some (CtrDirectory c PROJ_MOUNT)\<rparr>,
                           log (Println (warning_sign @
                             '' Warning: g.Proj is nil in Base(). Defaulting to /src.'')) w)
                     else (g, w))
              in case deref (Proj g1) of
                   Inl p \<Rightarrow> Inl p
                 | Inr proj1 \<Rightarrow>
                     Inr (g1\<lparr>Ctr := Some (WithEnvVariable
                                    (WithMountedDirectory c ''/src/vendor''
                                      (SubDirectory proj1 ''vendor''))
                                    ''GOFLAGS'' ''-mod=vendor'')\<rparr>, w1)))"

text \<open>\<open>New\<close> of \<open>golang/main.go\<close>.\<close>

definition New ::
  "container option \<Rightarrow> directory option \<Rightarrow> world \<Rightarrow> panic + (golang \<times> world)" where
  "New ctr proj w =
     (let g = \<lparr>Ctr = None, Proj = None\<rparr>
      in case (if ctr = None
               then (case Base g DEFAULT_GO w of
                       Inl p \<Rightarrow> Inl p
                     | Inr (g', w') \<Rightarrow> Inr (Ctr g', g', w'))
               else Inr (ctr, g, w)) of
           Inl p \<Rightarrow> Inl p
         | Inr (ctr1, g1, w1) \<Rightarrow>
             (let g2 = g1\<lparr>Ctr := ctr1\<rparr>
              in if proj \<noteq> None then Inr (g2\<lparr>Proj := proj\<rparr>, w1)
                 else (let w2 = log (Println (warning_sign @
                                  '' Warning: proj is nil in New(). Defaulting to /src.'')) w1
                       in case ctr1 of
                            None \<Rightarrow> Inl Panic
                          | Some c \<Rightarrow> Inr (g2\<lparr>Proj := Some (CtrDirectory c PROJ_MOUNT)\<rparr>, w2))))"

text \<open>
  The two older copies of the module, in the sources without a name: the first
  (\<open>DEFAULT_GO = "golang:1.23.4"\<close>) builds the default container inside \<open>New\<close> and
  defaults the project tree to the container's directory \<open>.\<close>; the second
  (\<open>DEFAULT_GO = "1.24"\<close>) has a \<open>Base\<close> that mounts the two caches only and a \<open>New\<close>
  that leaves the project tree \<open>nil\<close> when none is passed.
\<close>

definition DEFAULT_GO_v1 :: string where
  "DEFAULT_GO_v1 = ''golang:1.23.4''"

definition New_v1 :: "container option \<Rightarrow> directory option \<Rightarrow> world \<Rightarrow> golang \<times> world" where
  "New_v1 ctr proj w =
     (let c = (case ctr of
                 None \<Rightarrow>
                   WithMountedCache
                     (WithMountedCache (From DagContainer DEFAULT_GO_v1)
                        ''/go/pkg/mod'' (CacheVolume ''gomodcache'') None)
                     ''/root/.cache/go-build'' (CacheVolume ''gobuildcache'') None
               | Some c0 \<Rightarrow> c0)
      in if proj = None
         then (\<lparr>Ctr = Some c, Proj = Some (CtrDirectory c ''.'')\<rparr>,
               log (Println (warning_sign @
                 '' Warning: proj is nil. Defaulting to current directory.'')) w)
         else (\<lparr>Ctr = Some c, Proj = proj\<rparr>, w))"

definition DEFAULT_GO_v2 :: string where
  "DEFAULT_GO_v2 = ''1.24''"

definition Base_v2 :: "golang \<Rightarrow> string \<Rightarrow> golang" where
  "Base_v2 g version =
     (let modv = CacheVolume ''gomodcache'';
          build = CacheVolume ''gobuildcache'';
          img = ''golang:'' @ version;
          c = WithMountedCache
                (WithMountedCache (From DagContainer img) ''/go/pkg/mod'' modv None)
                ''/root/.cache/go-build'' build None
      in g\<lparr>Ctr := Some c\<rparr>)"

definition New_v2 :: "container option \<Rightarrow> directory option \<Rightarrow> golang" where
  "New_v2 ctr proj =
     (let g = \<lparr>Ctr = None, Proj = None\<rparr>;
          (ctr1, g1) = (if ctr = None
                        then (let g' = Base_v2 g DEFAULT_GO_v2 in (Ctr g', g'))
                        else (ctr, g));
          g2 = g1\<lparr>Ctr := ctr1\<rparr>
      in if proj \<noteq> None then g2\<lparr>Proj := proj\<rparr> else g2)"

subsection \<open>Build and Vulncheck\<close>



subsection \<open>Multisync\<close>

text \<open>
  \<open>fmt.Sprintf("/syncfile%v", i)\<close> appends the decimal digits of the loop index.
\<close>

function show_nat :: "nat \<Rightarrow> string" where
  "show_nat n =
     (if n < 10 then [char_of (48 + n)]
      else show_nat (n div 10) @ [char_of (48 + n mod 10)])"
  by pat_completeness auto
termination
  by (relation "measure id") auto

declare show_nat.simps [simp del]

text \<open>
  The loop of \<open>Multisync\<close> from index \<open>i\<close> on, with the aggregate directory \<open>hck\<close> built
  so far. A \<open>nil\<close> handle in the slice is the receiver of \<open>WithNewFile\<close>.
\<close>

fun Multisync_loop :: "nat \<Rightarrow> container option list \<Rightarrow> directory \<Rightarrow> panic + directory" where
  "Multisync_loop i [] hck = Inr hck"
| "Multisync_loop i (ctr # ctrs) hck =
     (case ctr of
        None \<Rightarrow> Inl Panic
      | Some c \<Rightarrow>
          (let ctrFile = ''/syncfile'' @ show_nat i;
               c' = WithNewFile c ''/syncfile'';
               hck' = DirWithFile hck ctrFile (CtrFile c' ''/syncfile'')
           in Multisync_loop (Suc i) ctrs hck'))"


text \<open>
  The files a chain of \<open>WithFile\<close> calls adds, in call order, and the directory the chain
  starts from.
\<close>

fun files_of :: "directory \<Rightarrow> (string \<times> file_handle) list" where
  "files_of (DirWithFile d name f) = files_of d @ [(name, f)]"
| "files_of DagDirectory = []"
| "files_of (HostDirectory h) = []"
| "files_of (CtrDirectory c path) = []"
| "files_of (SubDirectory d path) = []"
| "files_of (GitTree remote branch) = []"


subsection \<open>Two engines and a host for the examples\<close>

text \<open>
  An engine whose \<open>Endpoint\<close> always fails, and one that resolves every endpoint, runs
  every container and lists the files a directory chain added.
\<close>

definition engine_down :: engine where
  "engine_down =
     \<lparr>endpoint = (\<lambda>n s scheme. Inl ''unreachable''),
      stdout = (\<lambda>c. ([], Some ''unreachable'')),
      entries = (\<lambda>d. Inl ''unreachable'')\<rparr>"

definition engine_up :: engine where
  "engine_up =
     \<lparr>endpoint = (\<lambda>n s scheme. Inr ''tcp://docker:2375''),
      stdout = (\<lambda>c. (''ok'', None)),
      entries = (\<lambda>d. Inr (map fst (files_of d)))\<rparr>"


definition world0 :: world where
  "world0 = \<lparr>logged = [], resolved = 0\<rparr>"

section \<open>Properties\<close>

subsection \<open>Service\<close>

lemma Service_receiver: "Service g v = Service g' v"
  by (simp add: Service_def)

text \<open>
  C5. For every daemon version \<open>v\<close>, \<open>Service v\<close> is a pure function of \<open>v\<close>: it does
  not depend on the Build State it is called on, so two calls with the same version give
  the same descriptor. The descriptor has base image \<open>docker:<v>-dind\<close>, one cache
  mount, at \<open>/var/lib/docker\<close>, of the volume keyed \<open><v>-docker-lib\<close> with sharing mode
  private, exactly one exposed port, 2375, and one startup command, \<open>dockerd\<close> listening
  on a TCP socket and on a Unix socket with TLS switched off, run with insecure root
  capabilities.
\<close>

theorem Service_descriptor:
  "Service g v = Service g' v \<and>
   image_of (service_container (Service g v)) = Some (''docker:'' @ v @ ''-dind'') \<and>
   cache_mounts (service_container (Service g v)) =
     [(''/var/lib/docker'', CacheVolume (v @ ''-docker-lib''), Some Private)] \<and>
   ports_of (service_container (Service g v)) = [2375] \<and>
   execs_of (service_container (Service g v)) =
     [([''dockerd'', ''--host=tcp://0.0.0.0:2375'',
        ''--host=unix:///var/run/docker.sock'', ''--tls=false''], True)]"
  by (simp add: Service_def)

subsection \<open>Attach\<close>

lemma Attach_failure:
  "endpoint eng (resolved w) (Service g ''24.0'') ''tcp'' = Inl e \<Longrightarrow>
   Attach eng g container w = Inr ((None, Some e), w\<lparr>resolved := Suc (resolved w)\<rparr>)"
  by (simp add: Attach_def Let_def)

lemma Attach_success:
  "endpoint eng (resolved w) (Service g ''24.0'') ''tcp'' = Inr addr \<Longrightarrow>
   Attach eng g (Some c) w =
     Inr ((Some (WithEnvVariable (WithServiceBinding c ''docker'' (Service g ''24.0''))
                  ''DOCKER_HOST'' addr), None), w\<lparr>resolved := Suc (resolved w)\<rparr>)"
  by (simp add: Attach_def Let_def)

text \<open>
  C2, as the code has it. \<open>Attach c\<close> either fails, returning the error and no container
  at all (the \<open>nil\<close> handle, not \<open>c\<close>), or succeeds, returning a new container: \<open>c\<close> with
  the service bound under the alias \<open>docker\<close> and \<open>DOCKER_HOST\<close> set to the resolved
  address, everything else the chain of \<open>c\<close> set being as in \<open>c\<close>. The input \<open>c\<close> is a
  value and is the same before and after either way.
\<close>

theorem Attach_result:
  "(endpoint eng (resolved w) (Service g ''24.0'') ''tcp'' = Inl e \<longrightarrow>
      Attach eng g (Some c) w = Inr ((None, Some e), w\<lparr>resolved := Suc (resolved w)\<rparr>)) \<and>
   (endpoint eng (resolved w) (Service g ''24.0'') ''tcp'' = Inr addr \<longrightarrow>
      (\<exists>c'. Attach eng g (Some c) w = Inr ((Some c', None), w\<lparr>resolved := Suc (resolved w)\<rparr>) \<and>
            c' = WithEnvVariable (WithServiceBinding c ''docker'' (Service g ''24.0''))
                   ''DOCKER_HOST'' addr \<and>
            bindings_of c' ''docker'' = Some (Service g ''24.0'') \<and>
            env_of c' ''DOCKER_HOST'' = Some addr \<and>
            dir_at c' = dir_at c \<and> workdir_of c' = workdir_of c \<and>
            image_of c' = image_of c \<and> cache_mounts c' = cache_mounts c \<and>
            execs_of c' = execs_of c \<and> ports_of c' = ports_of c))"
  by (simp add: Attach_failure Attach_success)

theorem Attach_result_witness:
  "Attach engine_down \<lparr>Ctr = None, Proj = None\<rparr> (Some DagContainer) world0 =
     Inr ((None, Some ''unreachable''), \<lparr>logged = [], resolved = 1\<rparr>) \<and>
   (\<exists>c'. Attach engine_up \<lparr>Ctr = None, Proj = None\<rparr> (Some DagContainer) world0 =
            Inr ((Some c', None), \<lparr>logged = [], resolved = 1\<rparr>) \<and>
          bindings_of c' ''docker'' = Some (Service \<lparr>Ctr = None, Proj = None\<rparr> ''24.0'') \<and>
          env_of c' ''DOCKER_HOST'' = Some ''tcp://docker:2375'')"
  using Attach_result [of engine_down world0 "\<lparr>Ctr = None, Proj = None\<rparr>" "''unreachable''"
          DagContainer "[]"]
        Attach_result [of engine_up world0 "\<lparr>Ctr = None, Proj = None\<rparr>" "[]"
          DagContainer "''tcp://docker:2375''"]
  by (simp add: engine_down_def engine_up_def world0_def)

text \<open>
  C2 as stated fails: when the endpoint cannot be resolved, the handle \<open>Attach\<close> returns
  with the error is \<open>nil\<close>, not the input container.
\<close>

theorem Attach_failure_counterexample:
  "Attach engine_down \<lparr>Ctr = None, Proj = None\<rparr> (Some DagContainer) world0 =
     Inr ((None, Some ''unreachable''), \<lparr>logged = [], resolved = 1\<rparr>) \<and>
   fst (fst (projr (Attach engine_down \<lparr>Ctr = None, Proj = None\<rparr> (Some DagContainer) world0)))
     \<noteq> Some DagContainer"
  by (simp add: Attach_def engine_down_def world0_def Let_def)

subsection \<open>prepare\<close>

lemma prepare_attached:
  "Ctr g = Some ctr \<Longrightarrow> Proj g = Some t \<Longrightarrow>
   endpoint eng (resolved w) (Service g0 ''24.0'') ''tcp'' = Inr addr \<Longrightarrow>
   prepare eng g w =
     Inr (Some (WithEnvVariable
                 (WithServiceBinding (WithWorkdir (WithDirectory ctr ''/src'' t) ''/src'')
                    ''docker'' (Service g0 ''24.0''))
                 ''DOCKER_HOST'' addr),
          w\<lparr>resolved := Suc (resolved w)\<rparr>)"
  using Attach_success [of eng w g addr] Service_receiver [of g "''24.0''" g0]
  by (simp add: prepare_def PROJ_MOUNT_def)

lemma prepare_unattached:
  "Ctr g = Some ctr \<Longrightarrow> Proj g = Some t \<Longrightarrow>
   endpoint eng (resolved w) (Service g0 ''24.0'') ''tcp'' = Inl e \<Longrightarrow>
   prepare eng g w = Inr (None, log (Printf e) (w\<lparr>resolved := Suc (resolved w)\<rparr>))"
  using Attach_failure [of eng w g e] Service_receiver [of g "''24.0''" g0]
  by (simp add: prepare_def)

text \<open>
  \<open>prepare\<close> itself does not replace an absent project tree by a default: it passes
  the \<open>nil\<close> handle to \<open>WithDirectory\<close>.
\<close>

lemma prepare_without_project: "Proj g = None \<Longrightarrow> prepare eng g w = Inl Panic"
  by (simp add: prepare_def split: option.split)

text \<open>When the daemon is attached, the project tree is at \<open>/src\<close> and \<open>/src\<close> is the working directory.\<close>

lemma prepare_attached_mounts:
  assumes "Ctr g = Some ctr" and "Proj g = Some t"
    and "endpoint eng (resolved w) (Service g ''24.0'') ''tcp'' = Inr addr"
  shows "\<exists>c. prepare eng g w = Inr (Some c, w\<lparr>resolved := Suc (resolved w)\<rparr>) \<and>
     dir_at c ''/src'' = Some t \<and> workdir_of c = Some ''/src'' \<and>
     bindings_of c ''docker'' = Some (Service g ''24.0'') \<and>
     env_of c ''DOCKER_HOST'' = Some addr"
  using assms by (simp add: prepare_attached)

text \<open>
  C1. The claim: \<open>prepare\<close> returns a container with the project tree at \<open>/src\<close> and
  working directory \<open>/src\<close> whether or not the daemon was attached, and on a failed
  endpoint resolution it logs the error and returns the unattached container. The code
  logs the error, and then returns the \<open>nil\<close> handle \<open>Attach\<close> gave back: for every
  container \<open>c\<close> and project tree \<open>t\<close>, on an engine whose \<open>Endpoint\<close> fails, the result
  of \<open>prepare\<close> is no container, with the error's message logged.
\<close>

theorem prepare_returns_nil_when_unattached:
  "prepare engine_down \<lparr>Ctr = Some c, Proj = Some t\<rparr> w =
     Inr (None, w\<lparr>logged := logged w @ [Printf ''unreachable''], resolved := Suc (resolved w)\<rparr>)"
  by (simp add: prepare_def Attach_def engine_down_def log_def Let_def)

subsection \<open>Base and New\<close>

lemma Base_with_project:
  "Proj g = Some p \<Longrightarrow>
   Base g version w =
     Inr (g\<lparr>Ctr := Some
            (WithEnvVariable
              (WithMountedDirectory
                (WithEnvVariable
                  (WithMountedDirectory
                    (WithMountedCache
                      (WithMountedCache (From DagContainer (''golang:'' @ version))
                        ''/go/pkg/mod'' (CacheVolume ''gomodcache'') None)
                      ''/root/.cache/go-build'' (CacheVolume ''gobuildcache'') None)
                    ''/src/vendor'' (SubDirectory p ''vendor''))
                  ''GOFLAGS'' ''-mod=vendor'')
                ''/src/vendor'' (SubDirectory p ''vendor''))
              ''GOFLAGS'' ''-mod=vendor'')\<rparr>, w)"
  by (simp add: Base_def deref_def Let_def)

text \<open>
  C4. The claim: \<open>Base\<close> of \<open>golang/main.go\<close>, called with no project tree bound, logs a
  warning and goes on with the default tree. The code panics instead, on every version
  and in every state without a project tree: \<open>g.Proj.Directory("vendor")\<close> is called
  before the test for \<open>nil\<close>, so the warning and the default are never reached.
\<close>

theorem Base_panics_without_project:
  "Base (g\<lparr>Proj := None\<rparr>) version w = Inl Panic"
  by (simp add: Base_def deref_def)

text \<open>
  C3. The claim: every Build State produced by \<open>New\<close> has a container handle, a default
  one when the caller passes none, and an absent project tree is replaced by the
  directory \<open>/src\<close> of the current container instead of failing. \<open>New\<close> of
  \<open>golang/main.go\<close> calls \<open>Base\<close> on a fresh state for the default container, and a
  fresh state has no project tree: whatever project tree the caller passes, \<open>New\<close>
  without a container panics and produces no Build State.
\<close>

theorem New_panics_without_container:
  "New None proj w = Inl Panic"
  by (simp add: New_def Base_def deref_def)

text \<open>
  With a container passed, \<open>New\<close> of \<open>golang/main.go\<close> keeps it and defaults an absent
  project tree to the container's \<open>/src\<close>. The older copies build the default container,
  and default the project tree to the container's \<open>.\<close> or leave it \<open>nil\<close>.
\<close>

lemma New_with_container:
  "New (Some c) None w =
     Inr (\<lparr>Ctr = Some c, Proj = Some (CtrDirectory c ''/src'')\<rparr>,
          log (Println (warning_sign @ '' Warning: proj is nil in New(). Defaulting to /src.'')) w)"
  "New (Some c) (Some d) w = Inr (\<lparr>Ctr = Some c, Proj = Some d\<rparr>, w)"
  by (simp_all add: New_def PROJ_MOUNT_def Let_def)

lemma New_v1_defaults:
  "\<exists>c. Ctr (fst (New_v1 None None w)) = Some c \<and>
       Proj (fst (New_v1 None None w)) = Some (CtrDirectory c ''.'')"
  by (simp add: New_v1_def Let_def)

lemma New_v2_defaults:
  "Ctr (New_v2 None None) \<noteq> None \<and> Proj (New_v2 None None) = None"
  by (simp add: New_v2_def Base_v2_def Let_def)

text \<open>
  C6. For every pair of versions, equal or not, and whatever the states \<open>Base\<close> is called
  on, the containers \<open>Base\<close> produces have the same two cache mounts: the volume keyed
  \<open>gomodcache\<close> at \<open>/go/pkg/mod\<close> and the volume keyed \<open>gobuildcache\<close> at
  \<open>/root/.cache/go-build\<close>. \<open>Base\<close> of \<open>golang/main.go\<close> produces a container whenever a
  project tree is bound; the older \<open>Base\<close>, which mounts the caches only, always does.
\<close>

theorem Base_cache_volumes:
  "(Proj g = Some p \<and> Proj g' = Some p' \<longrightarrow>
      (\<exists>g1 g2 c1 c2.
         Base g v1 w = Inr (g1, w) \<and> Base g' v2 w' = Inr (g2, w') \<and>
         Ctr g1 = Some c1 \<and> Ctr g2 = Some c2 \<and>
         cache_mounts c1 =
           [(''/go/pkg/mod'', CacheVolume ''gomodcache'', None),
            (''/root/.cache/go-build'', CacheVolume ''gobuildcache'', None)] \<and>
         cache_mounts c2 = cache_mounts c1)) \<and>
   (\<exists>c1 c2.
      Ctr (Base_v2 h v1) = Some c1 \<and> Ctr (Base_v2 h' v2) = Some c2 \<and>
      cache_mounts c1 =
        [(''/go/pkg/mod'', CacheVolume ''gomodcache'', None),
         (''/root/.cache/go-build'', CacheVolume ''gobuildcache'', None)] \<and>
      cache_mounts c2 = cache_mounts c1)"
  by (simp add: Base_with_project Base_v2_def Let_def)

theorem Base_cache_volumes_witness:
  "\<exists>g1 g2 c1 c2.
     Base \<lparr>Ctr = None, Proj = Some (HostDirectory ''app'')\<rparr> ''1.23.4'' world0 = Inr (g1, world0) \<and>
     Base \<lparr>Ctr = Some DagContainer, Proj = Some DagDirectory\<rparr> ''1.24'' world0 = Inr (g2, world0) \<and>
     Ctr g1 = Some c1 \<and> Ctr g2 = Some c2 \<and>
     cache_mounts c1 =
       [(''/go/pkg/mod'', CacheVolume ''gomodcache'', None),
        (''/root/.cache/go-build'', CacheVolume ''gobuildcache'', None)] \<and>
     cache_mounts c2 = cache_mounts c1"
  using Base_cache_volumes [of "\<lparr>Ctr = None, Proj = Some (HostDirectory ''app'')\<rparr>"
      "HostDirectory ''app''" "\<lparr>Ctr = Some DagContainer, Proj = Some DagDirectory\<rparr>" DagDirectory
      "''1.23.4''" world0 "''1.24''" world0 "\<lparr>Ctr = None, Proj = None\<rparr>"
      "\<lparr>Ctr = None, Proj = None\<rparr>"]
  by simp

subsection \<open>Project\<close>

text \<open>
  C10. \<open>Project\<close> returns the directory at \<open>/src\<close> inside the current container handle
  (and panics when that handle is \<open>nil\<close>); it never reads the project tree of the Build
  State, so right after \<open>WithProject d\<close> its result is the same for every \<open>d\<close> and equal
  to what it was before the call.
\<close>

theorem Project_ignores_WithProject:
  "Project (WithProject g d) = Project g \<and>
   Project (WithProject g d) = Project (WithProject g d') \<and>
   Project (WithProject g d) =
     (case Ctr g of None \<Rightarrow> Inl Panic | Some c \<Rightarrow> Inr (CtrDirectory c ''/src''))"
  by (simp add: Project_def WithProject_def PROJ_MOUNT_def split: option.split)

subsection \<open>Build and Vulncheck\<close>







subsection \<open>Multisync\<close>










lemma Multisync_nil_handle:
  "Multisync_loop i (map Some cs @ None # rest) hck = Inl Panic"
  by (induction cs arbitrary: i hck) (simp_all add: Let_def)





end
